theory Spec2Isabelle
  imports Complex_Main
begin

section \<open>Energy splitting (openstf.model.split_energy) and the Tracy job runner\<close>

text \<open>
  Numbers: the Python code computes with IEEE doubles (numpy). They are idealised here as
  \<^typ>\<open>real\<close>; NaN and rounding are outside the model. Exceptions are values of
  \<open>py_error\<close>, and a function that may raise returns \<open>py_error + 'a\<close>.
\<close>

subsection \<open>Python values\<close>

datatype py_error =
    KeyError string
  | IndexError
  | ValueError
  | PyException string
  | ExternalError string

text \<open>
  A Python \<open>dict\<close> with string keys: an association list in insertion order.
  \<open>d[k] = v\<close> replaces the value of an existing key in place and appends a new key.
\<close>

type_synonym 'v dict = "(string \<times> 'v) list"

definition dict_keys :: "'v dict \<Rightarrow> string list" where
  "dict_keys d = map fst d"

definition dict_values :: "'v dict \<Rightarrow> 'v list" where
  "dict_values d = map snd d"

definition dict_getitem :: "'v dict \<Rightarrow> string \<Rightarrow> py_error + 'v" where
  "dict_getitem d k = (case map_of d k of None \<Rightarrow> Inl (KeyError k) | Some v \<Rightarrow> Inr v)"

fun dict_setitem :: "string \<Rightarrow> 'v \<Rightarrow> 'v dict \<Rightarrow> 'v dict" where
  "dict_setitem k v [] = [(k, v)]"
| "dict_setitem k v (p # ps) = (if fst p = k then (k, v) # ps else p # dict_setitem k v ps)"

text \<open>\<open>{name: value for name, value in pairs}\<close>\<close>

definition dict_of_pairs :: "(string \<times> 'v) list \<Rightarrow> 'v dict" where
  "dict_of_pairs ps = fold (\<lambda>(k, v) d. dict_setitem k v d) ps []"

subsection \<open>The coefficient validator\<close>

definition COEF_MAX_PCT_DIFF :: real where
  "COEF_MAX_PCT_DIFF = 0.3"

text \<open>
  The loop of \<open>are_new_coefs_valid\<close> over \<open>mean_coefs.keys()\<close>. In
  \<open>mean_coefs[key] - new_coefs[key]\<close> the left operand is read first; a missing key
  raises \<open>KeyError\<close>. The first key over the bound returns \<open>False\<close> at once.
\<close>

fun coefs_loop :: "real dict \<Rightarrow> real dict \<Rightarrow> string list \<Rightarrow> py_error + bool" where
  "coefs_loop new_coefs mean_coefs [] = Inr True"
| "coefs_loop new_coefs mean_coefs (key # keys) =
     (case dict_getitem mean_coefs key of
        Inl e \<Rightarrow> Inl e
      | Inr m \<Rightarrow>
          (case dict_getitem new_coefs key of
             Inl e \<Rightarrow> Inl e
           | Inr v \<Rightarrow>
               (let diff = \<bar>m - v\<bar> in
                if diff > COEF_MAX_PCT_DIFF * \<bar>m\<bar> then Inr False
                else coefs_loop new_coefs mean_coefs keys)))"

definition are_new_coefs_valid :: "real dict \<Rightarrow> real dict \<Rightarrow> py_error + bool" where
  "are_new_coefs_valid new_coefs mean_coefs =
     coefs_loop new_coefs mean_coefs (dict_keys mean_coefs)"

subsection \<open>Tables\<close>

text \<open>
  A pandas \<open>DataFrame\<close> with float columns: the index (timestamps, in seconds) and the
  columns in order, each a name and its values. In a well-formed frame every column has
  one value per index entry.
\<close>

record dataframe =
  df_index :: "int list"
  df_columns :: "(string \<times> real list) list"

definition wf_dataframe :: "dataframe \<Rightarrow> bool" where
  "wf_dataframe df = list_all (\<lambda>c. length (snd c) = length (df_index df)) (df_columns df)"

text \<open>\<open>df.iloc[:, i]\<close> for \<open>i \<ge> 0\<close>: the column at a position, \<open>IndexError\<close> out of range.\<close>

definition iloc_col :: "dataframe \<Rightarrow> nat \<Rightarrow> py_error + real list" where
  "iloc_col df i =
     (if i < length (df_columns df) then Inr (snd (df_columns df ! i)) else Inl IndexError)"

text \<open>\<open>df[name] = values\<close>: replaces the column of that name, or appends a new one.\<close>

definition set_column :: "string \<Rightarrow> real list \<Rightarrow> dataframe \<Rightarrow> dataframe" where
  "set_column name vals df = df\<lparr>df_columns := dict_setitem name vals (df_columns df)\<rparr>"

text \<open>\<open>df[[n1, n2, ...]]\<close>: the named columns in the order asked, \<open>KeyError\<close> for a missing name.\<close>

fun select_columns :: "(string \<times> real list) list \<Rightarrow> string list \<Rightarrow> py_error + (string \<times> real list) list" where
  "select_columns cols [] = Inr []"
| "select_columns cols (n # ns) =
     (case dict_getitem cols n of
        Inl e \<Rightarrow> Inl e
      | Inr c \<Rightarrow>
          (case select_columns cols ns of
             Inl e \<Rightarrow> Inl e
           | Inr rest \<Rightarrow> Inr ((n, c) # rest)))"

definition getitem_columns :: "dataframe \<Rightarrow> string list \<Rightarrow> py_error + dataframe" where
  "getitem_columns df names =
     (case select_columns (df_columns df) names of
        Inl e \<Rightarrow> Inl e
      | Inr cols \<Rightarrow> Inr (df\<lparr>df_columns := cols\<rparr>))"

text \<open>
  \<open>df.diff(axis=1).iloc[:, 1]\<close>: each column minus the column to its left, read at
  position 1, so the second column minus the first.
\<close>

definition diff_axis1_col1 :: "dataframe \<Rightarrow> py_error + real list" where
  "diff_axis1_col1 df =
     (case df_columns df of
        c0 # c1 # _ \<Rightarrow> Inr (map2 (\<lambda>a b. b - a) (snd c0) (snd c1))
      | _ \<Rightarrow> Inl IndexError)"

text \<open>\<open>Series.max()\<close> and \<open>Series.min()\<close>; \<open>None\<close> stands for the NaN of an empty series.\<close>

definition series_max :: "real list \<Rightarrow> real option" where
  "series_max xs = (case xs of [] \<Rightarrow> None | x # ys \<Rightarrow> Some (fold max ys x))"

definition series_min :: "real list \<Rightarrow> real option" where
  "series_min xs = (case xs of [] \<Rightarrow> None | x # ys \<Rightarrow> Some (fold min ys x))"

definition series_mean :: "real list \<Rightarrow> real option" where
  "series_mean xs = (if xs = [] then None else Some (sum_list xs / real (length xs)))"

subsection \<open>The component splitter\<close>

text \<open>
  For a 2-D array \<open>x\<close> given by its rows, \<open>row_sums n x w\<close> is the vector of length
  \<open>n\<close> whose entry \<open>i\<close> is the sum over the rows \<open>j\<close> of \<open>x[j][i] * w[j]\<close>: this is
  \<open>np.dot(x.T, w)\<close>, and also \<open>(frame * w).sum(axis=1)\<close> for a frame given by its columns.
\<close>

definition row_sums :: "nat \<Rightarrow> real list list \<Rightarrow> real list \<Rightarrow> real list" where
  "row_sums n x w = map (\<lambda>i. sum_list (map2 (\<lambda>c wj. c ! i * wj) x w)) [0..<n]"

definition ncols2d :: "real list list \<Rightarrow> nat" where
  "ncols2d x = (case x of [] \<Rightarrow> 0 | r # _ \<Rightarrow> length r)"

definition weighted_sum :: "real list list \<Rightarrow> real list \<Rightarrow> py_error + real list" where
  "weighted_sum x args =
     (if length x \<noteq> length args
      then Inl (PyException ''Length of args should match len of x'')
      else Inr (row_sums (ncols2d x) x args))"

text \<open>
  \<open>scipy.optimize.curve_fit\<close> is not code of this repository: it is a parameter, called
  with \<open>xdata\<close> (one row per reference column), \<open>ydata\<close>, the initial guess \<open>p0\<close> and the
  bounds; it returns the fitted weights or raises.
\<close>

datatype fit_bounds = NonNegative | Unbounded

type_synonym solver = "real list list \<Rightarrow> real list \<Rightarrow> real list \<Rightarrow> fit_bounds \<Rightarrow> py_error + real list"

text \<open>Lines 148 to 153: the scaler and the initial guess. \<open>None\<close> is the NaN of an empty load.\<close>

definition nedu_scaler :: "real list \<Rightarrow> real option" where
  "nedu_scaler load =
     (case (series_max load, series_min load) of
        (Some mx, Some mn) \<Rightarrow> Some ((mx - mn) / 10)
      | _ \<Rightarrow> None)"

definition initial_guess :: "dataframe \<Rightarrow> real \<Rightarrow> real list" where
  "initial_guess df scaler = [1, 1] @ replicate (length (df_columns df) - 3) scaler"

text \<open>Line 173, \<open>coefs[coefs < 0.1] = 0\<close>.\<close>

definition zero_small :: "real list \<Rightarrow> real list" where
  "zero_small coefs = map (\<lambda>c. if c < 0.1 then 0 else c) coefs"

text \<open>
  Lines 180 to 186. \<open>coefs[0]\<close> and \<open>coefs[1]\<close> are in range here: \<open>weighted_sum\<close> has
  checked that there are as many weights as reference columns, and there are at least two.
\<close>

definition build_components ::
  "dataframe \<Rightarrow> real list \<Rightarrow> real list \<Rightarrow> real list \<Rightarrow> real list \<Rightarrow> real list \<Rightarrow> py_error + dataframe" where
  "build_components df wind_ref pv_ref coefs hist histp0 =
     (let components = df\<lparr>df_columns := take 1 (df_columns df)\<rparr>;
          components = set_column ''Inschatting'' hist components;
          components = set_column ''p0'' histp0 components;
          components = set_column ''Windopwek'' (map (\<lambda>v. v * coefs ! 0) wind_ref) components;
          components = set_column ''Zonne-opwek'' (map (\<lambda>v. v * coefs ! 1) pv_ref) components;
          components = set_column ''StandaardVerbruik''
            (row_sums (length (df_index df)) (map snd (drop 3 (df_columns df))) (drop 2 coefs))
            components
      in case diff_axis1_col1 (components\<lparr>df_columns := take 2 (df_columns components)\<rparr>) of
           Inl e \<Rightarrow> Inl e
         | Inr d \<Rightarrow> Inr (set_column ''Residu'' (map (\<lambda>v. - 1 * v) d) components))"

text \<open>
  \<open>find_components\<close>. A table without rows has a NaN scaler, which the model cannot
  pass on; \<open>curve_fit\<close> rejects empty \<open>ydata\<close> with a \<open>ValueError\<close>, returned here.
\<close>

definition find_components :: "solver \<Rightarrow> dataframe \<Rightarrow> bool \<Rightarrow> py_error + (dataframe \<times> real dict)" where
  "find_components curve_fit df zero_bound =
     (case iloc_col df 0 of Inl e \<Rightarrow> Inl e | Inr load \<Rightarrow>
     (case iloc_col df 1 of Inl e \<Rightarrow> Inl e | Inr wind_ref \<Rightarrow>
     (case iloc_col df 2 of Inl e \<Rightarrow> Inl e | Inr pv_ref \<Rightarrow>
     (case nedu_scaler load of None \<Rightarrow> Inl ValueError | Some scaler \<Rightarrow>
     (let p0 = initial_guess df scaler;
          bounds = (if zero_bound then NonNegative else Unbounded);
          xdata = map snd (drop 1 (df_columns df))
      in
     (case curve_fit xdata load p0 bounds of Inl e \<Rightarrow> Inl e | Inr fitted \<Rightarrow>
     (let coefs = zero_small fitted in
     (case weighted_sum xdata coefs of Inl e \<Rightarrow> Inl e | Inr hist \<Rightarrow>
     (case weighted_sum xdata p0 of Inl e \<Rightarrow> Inl e | Inr histp0 \<Rightarrow>
     (case build_components df wind_ref pv_ref coefs hist histp0 of
        Inl e \<Rightarrow> Inl e
      | Inr components \<Rightarrow>
          Inr (components,
               dict_of_pairs (zip (map fst (drop 1 (df_columns df))) coefs))))))))))))"

subsection \<open>The result formatter\<close>

record prediction_job =
  pj_id :: int

record coef_row =
  coef_name :: string
  coef_value :: real
  pid :: int
  date_start :: "int option"
  date_end :: "int option"
  created :: int

text \<open>
  \<open>index.min()\<close> and \<open>index.max()\<close> of a datetime index; \<open>None\<close> is the \<open>NaT\<close> of an
  empty index, which \<open>.date()\<close> leaves as it is. A date is a day number.
\<close>

definition index_min :: "int list \<Rightarrow> int option" where
  "index_min ts = (case ts of [] \<Rightarrow> None | t # us \<Rightarrow> Some (fold min us t))"

definition index_max :: "int list \<Rightarrow> int option" where
  "index_max ts = (case ts of [] \<Rightarrow> None | t # us \<Rightarrow> Some (fold max us t))"

definition date_of :: "int \<Rightarrow> int" where
  "date_of t = t div 86400"

text \<open>\<open>now\<close> is the value that \<open>datetime.utcnow()\<close> returns in this call.\<close>

definition convert_coefdict_to_coefsdf ::
  "prediction_job \<Rightarrow> dataframe \<Rightarrow> real dict \<Rightarrow> int \<Rightarrow> coef_row list" where
  "convert_coefdict_to_coefsdf pj input_split_function coefdict now =
     map (\<lambda>(name, val).
            \<lparr>coef_name = name, coef_value = val,
             pid = pj_id pj,
             date_start = map_option date_of (index_min (df_index input_split_function)),
             date_end = map_option date_of (index_max (df_index input_split_function)),
             created = now\<rparr>)
         (zip (dict_keys coefdict) (dict_values coefdict))"

subsection \<open>The orchestrator\<close>

text \<open>
  The calls that leave the program (log lines, chat messages, database writes) are recorded
  in order as events; they are taken to return normally. Database reads are parameters
  and may raise.
\<close>

record tracy_job =
  job_id :: int
  job_function :: string
  job_args :: string
  inprogress :: int

datatype event =
    LogInfo string
  | LogWarning string
  | LogError string
  | PostTeams string
  | PostTeamsAlert string "coef_row list"
  | WriteEnergySplittingCoefficients "coef_row list"
  | UpdateTracyJob tracy_job
  | DeleteTracyJob tracy_job

record database =
  get_prediction_job :: "int \<Rightarrow> py_error + prediction_job"
  get_input_energy_splitting :: "prediction_job \<Rightarrow> py_error + dataframe"
  get_energy_split_coefs :: "prediction_job \<Rightarrow> bool \<Rightarrow> py_error + real dict"

text \<open>\<open>utcnow n\<close> is the value of the \<open>n\<close>-th reading of the clock in one invocation.\<close>

record split_env =
  db :: database
  curve_fit :: solver
  utcnow :: "nat \<Rightarrow> int"

text \<open>\<open>str\<close> of an integer, as \<open>format\<close> writes it.\<close>

function str_nat :: "nat \<Rightarrow> string" where
  "str_nat n =
     (if n < 10 then [''0123456789'' ! n]
      else str_nat (n div 10) @ [''0123456789'' ! (n mod 10)])"
  by pat_completeness auto
termination
  by (relation "measure id") auto

declare str_nat.simps [simp del]

definition str_int :: "int \<Rightarrow> string" where
  "str_int i = (if i < 0 then CHR ''-'' # str_nat (nat (- i)) else str_nat (nat i))"

text \<open>Lines 28 to 47: fetch, fit, MAE, candidate record.\<close>

definition fit_candidate ::
  "split_env \<Rightarrow> int \<Rightarrow> event list \<Rightarrow>
   (py_error + prediction_job \<times> dataframe \<times> real dict \<times> coef_row list) \<times> event list" where
  "fit_candidate env job_pid tr =
     (case get_prediction_job (db env) job_pid of Inl e \<Rightarrow> (Inl e, tr) | Inr pj \<Rightarrow>
     (let tr = tr @ [LogInfo ''Start splitting energy''] in
     (case get_input_energy_splitting (db env) pj of Inl e \<Rightarrow> (Inl e, tr)
      | Inr input_split_function \<Rightarrow>
     (case find_components (curve_fit env) input_split_function True of Inl e \<Rightarrow> (Inl e, tr)
      | Inr (components, coefdict) \<Rightarrow>
     (case getitem_columns components [''load'', ''Inschatting''] of Inl e \<Rightarrow> (Inl e, tr)
      | Inr sel \<Rightarrow>
     (case diff_axis1_col1 sel of Inl e \<Rightarrow> (Inl e, tr) | Inr error \<Rightarrow>
     (case series_mean (map abs error) of None \<Rightarrow> (Inl ValueError, tr) | Some mae \<Rightarrow>
     (let coefdict = dict_setitem ''MAE'' mae coefdict;
          coefsdf = convert_coefdict_to_coefsdf pj input_split_function coefdict (utcnow env 0)
      in (Inr (pj, input_split_function, coefdict, coefsdf), tr)))))))))"

text \<open>
  In \<open>fit_candidate\<close> the mean of an empty series would be NaN; that branch is not
  reached, since \<open>find_components\<close> has raised on a table without rows.
\<close>

definition alert_message :: "prediction_job \<Rightarrow> string" where
  "alert_message pj =
     ''New splitting coefficients for pid '' @ str_int (pj_id pj)
       @ '' deviate strongly from previously stored coefficients.''"

text \<open>Lines 49 to 70: validate, then alert and fall back, or write.\<close>

definition persist_or_alert ::
  "split_env \<Rightarrow> prediction_job \<Rightarrow> dataframe \<Rightarrow> real dict \<Rightarrow> coef_row list \<Rightarrow> event list \<Rightarrow>
   (py_error + coef_row list) \<times> event list" where
  "persist_or_alert env pj input_split_function coefdict coefsdf tr =
     (case get_energy_split_coefs (db env) pj True of Inl e \<Rightarrow> (Inl e, tr) | Inr mean_coefs \<Rightarrow>
     (case are_new_coefs_valid coefdict mean_coefs of Inl e \<Rightarrow> (Inl e, tr) | Inr valid \<Rightarrow>
       if valid = False then
         (let tr = tr @ [PostTeamsAlert (alert_message pj) coefsdf] in
         (case get_energy_split_coefs (db env) pj False of Inl e \<Rightarrow> (Inl e, tr)
          | Inr last_coefdict \<Rightarrow>
             (let last_coefsdf =
                    convert_coefdict_to_coefsdf pj input_split_function last_coefdict (utcnow env 1)
              in (Inr last_coefsdf, tr))))
       else
         (let tr = tr @ [WriteEnergySplittingCoefficients coefsdf];
              tr = tr @ [LogInfo ''Succesfully wrote energy split coefficients to database'']
          in (Inr coefsdf, tr))))"

definition split_energy ::
  "split_env \<Rightarrow> int \<Rightarrow> event list \<Rightarrow> (py_error + coef_row list) \<times> event list" where
  "split_energy env job_pid tr =
     (case fit_candidate env job_pid tr of
        (Inl e, tr) \<Rightarrow> (Inl e, tr)
      | (Inr (pj, input_split_function, coefdict, coefsdf), tr) \<Rightarrow>
          persist_or_alert env pj input_split_function coefdict coefsdf tr)"

subsection \<open>The Tracy job runner\<close>

text \<open>
  The handlers, \<open>int\<close> and the rendering of a job in a message are not code of this
  repository: they are parameters. A handler returns normally (\<open>None\<close>) or raises.
\<close>

record task_context =
  database :: database
  get_all_tracy_jobs :: "int \<Rightarrow> py_error + tracy_job list"
  py_int :: "string \<Rightarrow> py_error + int"
  train_model_task :: "prediction_job \<Rightarrow> py_error option"
  optimize_hyperparameters_task :: "prediction_job \<Rightarrow> py_error option"
  str_job :: "tracy_job \<Rightarrow> string"









subsection \<open>Auxiliary notions for the statements\<close>

text \<open>The column names that \<open>find_components\<close> assigns.\<close>

definition component_names :: "string list" where
  "component_names =
     [''Inschatting'', ''p0'', ''Windopwek'', ''Zonne-opwek'', ''StandaardVerbruik'', ''Residu'']"

text \<open>The bound that the validator checks for one key, when both mappings have the key.\<close>

definition coef_within_bound :: "real dict \<Rightarrow> real dict \<Rightarrow> string \<Rightarrow> bool" where
  "coef_within_bound new_coefs mean_coefs key =
     (case (dict_getitem mean_coefs key, dict_getitem new_coefs key) of
        (Inr m, Inr v) \<Rightarrow> \<bar>m - v\<bar> \<le> COEF_MAX_PCT_DIFF * \<bar>m\<bar>
      | _ \<Rightarrow> False)"

text \<open>
  A small table for concrete runs: three rows, no standard profile. The least-squares fit
  of \<open>load\<close> by \<open>wind_ref\<close> and \<open>pv_ref\<close> has the weights \<open>2/3\<close> and \<open>2/3\<close>;
  \<open>constant_fit\<close> is a solver that returns given weights.
\<close>

definition constant_fit :: "real list \<Rightarrow> solver" where
  "constant_fit ws xdata ydata p0 bounds = Inr ws"

definition example_table :: dataframe where
  "example_table =
     \<lparr>df_index = [0, 900, 1800],
      df_columns = [(''load'', [1, 1, 1]), (''wind_ref'', [1, 0, 1]), (''pv_ref'', [0, 1, 1])]\<rparr>"

definition example_components :: dataframe where
  "example_components =
     \<lparr>df_index = [0, 900, 1800],
      df_columns =
        [(''load'', [1, 1, 1]), (''Inschatting'', [2/3, 2/3, 4/3]), (''p0'', [1, 1, 2]),
         (''Windopwek'', [2/3, 0, 2/3]), (''Zonne-opwek'', [0, 2/3, 2/3]),
         (''StandaardVerbruik'', [0, 0, 0]), (''Residu'', [1/3, 1/3, - (1/3)])]\<rparr>"

text \<open>
  A table whose load is exactly \<open>- 5 * wind_ref + 1 * pv_ref\<close>, for a fit without the
  zero bound.
\<close>

definition negative_wind_table :: dataframe where
  "negative_wind_table =
     \<lparr>df_index = [0, 900, 1800],
      df_columns = [(''load'', [- 5, 1, - 4]), (''wind_ref'', [1, 0, 1]), (''pv_ref'', [0, 1, 1])]\<rparr>"

text \<open>
  A store for concrete runs: every job exists, the input is the example table, and the
  historical mean and the last coefficients are given. The clock reads \<open>1000, 1001, ...\<close>.
\<close>

definition example_db :: "real dict \<Rightarrow> real dict \<Rightarrow> database" where
  "example_db mean_coefs last_coefs =
     \<lparr>get_prediction_job = (\<lambda>job_pid. Inr \<lparr>pj_id = job_pid\<rparr>),
      get_input_energy_splitting = (\<lambda>pj. Inr example_table),
      get_energy_split_coefs = (\<lambda>pj mean. Inr (if mean then mean_coefs else last_coefs))\<rparr>"

definition example_env :: "real dict \<Rightarrow> real dict \<Rightarrow> split_env" where
  "example_env mean_coefs last_coefs =
     \<lparr>db = example_db mean_coefs last_coefs,
      curve_fit = constant_fit [2/3, 2/3],
      utcnow = (\<lambda>n. 1000 + int n)\<rparr>"




section \<open>Properties\<close>

subsection \<open>Dictionaries\<close>

lemma map_of_dict_setitem: "map_of (dict_setitem k v d) = (map_of d)(k \<mapsto> v)"
  by (induction d) auto

lemma dict_getitem_setitem:
  "dict_getitem (dict_setitem k v d) k' = (if k' = k then Inr v else dict_getitem d k')"
  by (simp add: dict_getitem_def map_of_dict_setitem)

lemma dict_keys_setitem: "set (dict_keys (dict_setitem k v d)) = insert k (set (dict_keys d))"
  by (induction d) (auto simp: dict_keys_def)

lemma dict_getitem_Inr_iff: "(\<exists>v. dict_getitem d k = Inr v) \<longleftrightarrow> k \<in> set (dict_keys d)"
  by (auto simp: dict_getitem_def dict_keys_def map_of_eq_None_iff split: option.splits)
     (metis map_of_eq_None_iff not_Some_eq)

lemma dict_getitem_Inl_iff:
  "dict_getitem d k = Inl e \<longleftrightarrow> k \<notin> set (dict_keys d) \<and> e = KeyError k"
  by (force simp: dict_getitem_def dict_keys_def map_of_eq_None_iff
            split: option.splits dest: map_of_SomeD)

subsection \<open>The validator\<close>

lemma coef_within_bound_iff:
  "coef_within_bound new_coefs mean_coefs key \<longleftrightarrow>
     (\<exists>m v. dict_getitem mean_coefs key = Inr m \<and> dict_getitem new_coefs key = Inr v
            \<and> \<bar>m - v\<bar> \<le> 0.3 * \<bar>m\<bar>)"
  by (auto simp: coef_within_bound_def COEF_MAX_PCT_DIFF_def split: sum.splits)

lemma coefs_loop_True_iff:
  "coefs_loop new_coefs mean_coefs keys = Inr True \<longleftrightarrow>
     (\<forall>key \<in> set keys. coef_within_bound new_coefs mean_coefs key)"
  by (induction keys) (auto simp: coef_within_bound_def Let_def split: sum.splits)

text \<open>
  The loop raises exactly when it reaches a key that \<open>new_coefs\<close> lacks and every key
  before it is within the bound.
\<close>

lemma coefs_loop_raises:
  "set keys \<subseteq> set (dict_keys mean_coefs) \<Longrightarrow>
   coefs_loop new_coefs mean_coefs keys = Inl e \<longleftrightarrow>
     (\<exists>ks key ks'. keys = ks @ key # ks' \<and> key \<notin> set (dict_keys new_coefs) \<and> e = KeyError key
        \<and> (\<forall>k \<in> set ks. coef_within_bound new_coefs mean_coefs k))"
proof (induction keys)
  case Nil
  then show ?case by simp
next
  case (Cons key keys)
  let ?stops = "\<lambda>xs. \<exists>ks k ks'. xs = ks @ k # ks' \<and> k \<notin> set (dict_keys new_coefs)
        \<and> e = KeyError k \<and> (\<forall>k \<in> set ks. coef_within_bound new_coefs mean_coefs k)"
  from Cons.prems obtain m where m: "dict_getitem mean_coefs key = Inr m"
    using dict_getitem_Inr_iff[of mean_coefs key] by auto
  from Cons.prems have sub: "set keys \<subseteq> set (dict_keys mean_coefs)" by simp
  note IH = Cons.IH[OF sub]
  show ?case
  proof (cases "dict_getitem new_coefs key")
    case (Inl e')
    then have miss: "key \<notin> set (dict_keys new_coefs)" "e' = KeyError key"
      by (simp_all add: dict_getitem_Inl_iff)
    have nb: "\<not> coef_within_bound new_coefs mean_coefs key"
      by (simp add: coef_within_bound_def m Inl)
    have "coefs_loop new_coefs mean_coefs (key # keys) = Inl (KeyError key)"
      by (simp add: m Inl miss)
    moreover have "?stops (key # keys) \<longleftrightarrow> e = KeyError key"
    proof
      assume "?stops (key # keys)"
      then obtain ks k ks' where h: "key # keys = ks @ k # ks'" "e = KeyError k"
        "\<forall>k \<in> set ks. coef_within_bound new_coefs mean_coefs k" by blast
      show "e = KeyError key"
      proof (cases ks)
        case Nil
        with h show ?thesis by simp
      next
        case (Cons a as)
        with h have "a = key" by simp
        with h Cons nb show ?thesis by simp
      qed
    next
      assume "e = KeyError key"
      with miss show "?stops (key # keys)"
        by (intro exI[of _ "[]"] exI[of _ key] exI[of _ keys]) simp
    qed
    ultimately show ?thesis by auto
  next
    case (Inr v)
    then have has: "key \<in> set (dict_keys new_coefs)"
      using dict_getitem_Inr_iff[of new_coefs key] by auto
    show ?thesis
    proof (cases "\<bar>m - v\<bar> > COEF_MAX_PCT_DIFF * \<bar>m\<bar>")
      case True
      then have nb: "\<not> coef_within_bound new_coefs mean_coefs key"
        by (simp add: coef_within_bound_def m Inr)
      have l: "coefs_loop new_coefs mean_coefs (key # keys) = Inr False"
        using True by (simp add: m Inr)
      have "\<not> ?stops (key # keys)"
      proof
        assume "?stops (key # keys)"
        then obtain ks k ks' where h: "key # keys = ks @ k # ks'"
          "k \<notin> set (dict_keys new_coefs)"
          "\<forall>k \<in> set ks. coef_within_bound new_coefs mean_coefs k" by blast
        show False
        proof (cases ks)
          case Nil
          with h has show ?thesis by simp
        next
          case (Cons a as)
          with h have "a = key" by simp
          with h Cons nb show ?thesis by simp
        qed
      qed
      with l show ?thesis by simp
    next
      case False
      then have wb: "coef_within_bound new_coefs mean_coefs key"
        by (simp add: coef_within_bound_def m Inr)
      have l: "coefs_loop new_coefs mean_coefs (key # keys)
                 = coefs_loop new_coefs mean_coefs keys"
        using False by (simp add: m Inr)
      have "?stops (key # keys) \<longleftrightarrow> ?stops keys"
      proof
        assume "?stops (key # keys)"
        then obtain ks k ks' where h: "key # keys = ks @ k # ks'"
          "k \<notin> set (dict_keys new_coefs)" "e = KeyError k"
          "\<forall>k \<in> set ks. coef_within_bound new_coefs mean_coefs k" by blast
        show "?stops keys"
        proof (cases ks)
          case Nil
          with h has show ?thesis by simp
        next
          case (Cons a as)
          with h have "keys = as @ k # ks'"
            "\<forall>k \<in> set as. coef_within_bound new_coefs mean_coefs k"
            by simp_all
          with h show ?thesis by blast
        qed
      next
        assume "?stops keys"
        then obtain ks k ks' where h: "keys = ks @ k # ks'"
          "k \<notin> set (dict_keys new_coefs)" "e = KeyError k"
          "\<forall>k \<in> set ks. coef_within_bound new_coefs mean_coefs k" by blast
        then have "key # keys = (key # ks) @ k # ks'"
          "\<forall>k \<in> set (key # ks). coef_within_bound new_coefs mean_coefs k"
          using wb by simp_all
        with h show "?stops (key # keys)" by blast
      qed
      with l IH show ?thesis by simp
    qed
  qed
qed

lemma coefs_loop_total:
  "set keys \<subseteq> set (dict_keys mean_coefs) \<Longrightarrow> set keys \<subseteq> set (dict_keys new_coefs) \<Longrightarrow>
   \<exists>b. coefs_loop new_coefs mean_coefs keys = Inr b"
proof (induction keys)
  case Nil
  show ?case by (rule exI[of _ True]) simp
next
  case (Cons key keys)
  from Cons.prems obtain m v where
    mv: "dict_getitem mean_coefs key = Inr m" "dict_getitem new_coefs key = Inr v"
    using dict_getitem_Inr_iff[of mean_coefs key] dict_getitem_Inr_iff[of new_coefs key] by auto
  from Cons obtain b where b: "coefs_loop new_coefs mean_coefs keys = Inr b" by auto
  show ?case
  proof (cases "\<bar>m - v\<bar> > COEF_MAX_PCT_DIFF * \<bar>m\<bar>")
    case True
    then have "coefs_loop new_coefs mean_coefs (key # keys) = Inr False" by (simp add: mv)
    then show ?thesis by blast
  next
    case False
    then have "coefs_loop new_coefs mean_coefs (key # keys) = Inr b" by (simp add: mv b)
    then show ?thesis by blast
  qed
qed

lemma coefs_loop_cong:
  "\<forall>k \<in> set keys. dict_getitem new_coefs k = dict_getitem new_coefs' k \<Longrightarrow>
   coefs_loop new_coefs mean_coefs keys = coefs_loop new_coefs' mean_coefs keys"
  by (induction keys) (auto simp: Let_def split: sum.splits)

lemmas validator_eval =
  are_new_coefs_valid_def dict_keys_def dict_getitem_def COEF_MAX_PCT_DIFF_def

text \<open>
  C5. \<open>are_new_coefs_valid\<close> returns \<open>True\<close> if and only if every key of \<open>mean_coefs\<close>
  is a key of \<open>new_coefs\<close> whose value \<open>v\<close> is within the bound
  \<open>|m - v| \<le> 0.3 * |m|\<close> of the mean \<open>m\<close>; where every key of \<open>mean_coefs\<close> is in
  \<open>new_coefs\<close>, it returns \<open>False\<close> if and only if some key is out of the bound. With
  mean \<open>{a: 10}\<close> it returns \<open>True\<close> for \<open>{a: 13}\<close> and \<open>False\<close> for \<open>{a: 13.01}\<close>,
  and for an empty \<open>mean_coefs\<close> it returns \<open>True\<close> for every \<open>new_coefs\<close>.
\<close>

theorem are_new_coefs_valid_iff:
  "(are_new_coefs_valid new_coefs mean_coefs = Inr True \<longleftrightarrow>
      (\<forall>key \<in> set (dict_keys mean_coefs).
         \<exists>m v. dict_getitem mean_coefs key = Inr m \<and> dict_getitem new_coefs key = Inr v
              \<and> \<bar>m - v\<bar> \<le> 0.3 * \<bar>m\<bar>))
   \<and> (set (dict_keys mean_coefs) \<subseteq> set (dict_keys new_coefs) \<longrightarrow>
        (are_new_coefs_valid new_coefs mean_coefs = Inr False \<longleftrightarrow>
           \<not> (\<forall>key \<in> set (dict_keys mean_coefs).
                \<exists>m v. dict_getitem mean_coefs key = Inr m \<and> dict_getitem new_coefs key = Inr v
                     \<and> \<bar>m - v\<bar> \<le> 0.3 * \<bar>m\<bar>)))
   \<and> are_new_coefs_valid [(''a'', 13)] [(''a'', 10)] = Inr True
   \<and> are_new_coefs_valid [(''a'', 13.01)] [(''a'', 10)] = Inr False
   \<and> are_new_coefs_valid new_coefs [] = Inr True"
proof -
  let ?ok = "\<forall>key \<in> set (dict_keys mean_coefs).
         \<exists>m v. dict_getitem mean_coefs key = Inr m \<and> dict_getitem new_coefs key = Inr v
              \<and> \<bar>m - v\<bar> \<le> 0.3 * \<bar>m\<bar>"
  have t: "are_new_coefs_valid new_coefs mean_coefs = Inr True \<longleftrightarrow> ?ok"
    by (simp add: are_new_coefs_valid_def coefs_loop_True_iff coef_within_bound_iff)
  have f: "are_new_coefs_valid new_coefs mean_coefs = Inr False \<longleftrightarrow> \<not> ?ok"
    if "set (dict_keys mean_coefs) \<subseteq> set (dict_keys new_coefs)"
  proof -
    from coefs_loop_total[OF subset_refl that]
    obtain b where "are_new_coefs_valid new_coefs mean_coefs = Inr b"
      by (auto simp: are_new_coefs_valid_def)
    with t show ?thesis by (cases b) auto
  qed
  have a: "are_new_coefs_valid [(''a'', 13)] [(''a'', 10)] = Inr True"
    by (simp add: validator_eval)
  have b: "are_new_coefs_valid [(''a'', 13.01)] [(''a'', 10)] = Inr False"
    by (simp add: validator_eval)
  have c: "are_new_coefs_valid new_coefs [] = Inr True"
    by (simp add: are_new_coefs_valid_def dict_keys_def)
  from t f a b c show ?thesis by blast
qed

theorem are_new_coefs_valid_iff_witness:
  "are_new_coefs_valid [(''wind_ref'', 6), (''pv_ref'', 2), (''MAE'', 1)]
                       [(''wind_ref'', 5), (''pv_ref'', 2)] = Inr True
   \<and> are_new_coefs_valid [(''wind_ref'', 7), (''pv_ref'', 2), (''MAE'', 1)]
                          [(''wind_ref'', 5), (''pv_ref'', 2)] = Inr False"
proof -
  let ?mean = "[(''wind_ref'', 5 :: real), (''pv_ref'', 2)]"
  let ?new = "[(''wind_ref'', 6 :: real), (''pv_ref'', 2), (''MAE'', 1)]"
  let ?far = "[(''wind_ref'', 7 :: real), (''pv_ref'', 2), (''MAE'', 1)]"
  have ok: "\<forall>key \<in> set (dict_keys ?mean).
         \<exists>m v. dict_getitem ?mean key = Inr m \<and> dict_getitem ?new key = Inr v
              \<and> \<bar>m - v\<bar> \<le> 0.3 * \<bar>m\<bar>"
    by (simp add: dict_keys_def dict_getitem_def)
  have sub: "set (dict_keys ?mean) \<subseteq> set (dict_keys ?far)"
    by (simp add: dict_keys_def)
  have bad: "\<not> (\<forall>key \<in> set (dict_keys ?mean).
         \<exists>m v. dict_getitem ?mean key = Inr m \<and> dict_getitem ?far key = Inr v
              \<and> \<bar>m - v\<bar> \<le> 0.3 * \<bar>m\<bar>)"
    by (simp add: dict_keys_def dict_getitem_def)
  from are_new_coefs_valid_iff[of ?new ?mean] ok
  have 1: "are_new_coefs_valid ?new ?mean = Inr True" by blast
  from are_new_coefs_valid_iff[of ?far ?mean] sub bad
  have 2: "are_new_coefs_valid ?far ?mean = Inr False" by blast
  from 1 2 show ?thesis by simp
qed

text \<open>
  C10, as the code has it. \<open>are_new_coefs_valid\<close> raises \<open>KeyError\<close> exactly when, going
  through the keys of \<open>mean_coefs\<close> in order, it reaches a key that \<open>new_coefs\<close> lacks
  while every key before it is within the bound; a key out of the bound that comes first
  makes it return \<open>False\<close> without a look at the later keys. When every key of
  \<open>mean_coefs\<close> is a key of \<open>new_coefs\<close> it returns a boolean.
\<close>

theorem are_new_coefs_valid_raises_iff:
  "(are_new_coefs_valid new_coefs mean_coefs = Inl e \<longleftrightarrow>
      (\<exists>ks key ks'. dict_keys mean_coefs = ks @ key # ks'
         \<and> key \<notin> set (dict_keys new_coefs) \<and> e = KeyError key
         \<and> (\<forall>k \<in> set ks.
               \<exists>m v. dict_getitem mean_coefs k = Inr m \<and> dict_getitem new_coefs k = Inr v
                    \<and> \<bar>m - v\<bar> \<le> 0.3 * \<bar>m\<bar>)))
   \<and> (set (dict_keys mean_coefs) \<subseteq> set (dict_keys new_coefs) \<longrightarrow>
        (\<exists>b. are_new_coefs_valid new_coefs mean_coefs = Inr b))"
  using coefs_loop_raises[OF subset_refl, where mean_coefs = mean_coefs
           and new_coefs = new_coefs and e = e]
        coefs_loop_total[OF subset_refl, where mean_coefs = mean_coefs
           and new_coefs = new_coefs]
  by (simp add: are_new_coefs_valid_def coef_within_bound_iff)

theorem are_new_coefs_valid_raises_iff_witness:
  "are_new_coefs_valid [(''a'', 11)] [(''a'', 10), (''b'', 1)] = Inl (KeyError ''b'')
   \<and> (\<exists>b. are_new_coefs_valid [(''a'', 11), (''b'', 1)] [(''a'', 10), (''b'', 1)] = Inr b)"
proof -
  have "\<exists>ks key ks'. dict_keys [(''a'', 10 :: real), (''b'', 1)] = ks @ key # ks'
         \<and> key \<notin> set (dict_keys [(''a'', 11 :: real)]) \<and> KeyError ''b'' = KeyError key
         \<and> (\<forall>k \<in> set ks.
               \<exists>m v. dict_getitem [(''a'', 10 :: real), (''b'', 1)] k = Inr m
                    \<and> dict_getitem [(''a'', 11 :: real)] k = Inr v
                    \<and> \<bar>m - v\<bar> \<le> 0.3 * \<bar>m\<bar>)"
    by (intro exI[of _ "[''a'']"] exI[of _ "''b''"] exI[of _ "[]"])
       (simp add: dict_keys_def dict_getitem_def)
  then have "are_new_coefs_valid [(''a'', 11)] [(''a'', 10), (''b'', 1)] = Inl (KeyError ''b'')"
    using are_new_coefs_valid_raises_iff[of "[(''a'', 11)]" "[(''a'', 10), (''b'', 1)]"
            "KeyError ''b''"]
    by blast
  moreover
  have "\<exists>b. are_new_coefs_valid [(''a'', 11), (''b'', 1)] [(''a'', 10), (''b'', 1)] = Inr b"
    using are_new_coefs_valid_raises_iff[of "[(''a'', 11), (''b'', 1)]"
            "[(''a'', 10), (''b'', 1)]"]
    by (simp add: dict_keys_def)
  ultimately show ?thesis by simp
qed

text \<open>
  C10 as stated fails: \<open>b\<close> is a key of the mean mapping that the new mapping lacks, and
  the function returns \<open>False\<close>, since \<open>a\<close> comes first and is out of the bound.
\<close>

theorem are_new_coefs_valid_missing_key_counterexample:
  "''b'' \<in> set (dict_keys [(''a'', 10 :: real), (''b'', 1)])
   \<and> ''b'' \<notin> set (dict_keys [(''a'', 100 :: real)])
   \<and> are_new_coefs_valid [(''a'', 100)] [(''a'', 10), (''b'', 1)] = Inr False"
  by (simp add: validator_eval)
subsection \<open>The component splitter\<close>

lemma length_row_sums: "length (row_sums n x w) = n"
  by (simp add: row_sums_def)

lemma wf_column_length:
  "wf_dataframe df \<Longrightarrow> j < length (df_columns df) \<Longrightarrow>
   length (snd (df_columns df ! j)) = length (df_index df)"
  by (simp add: wf_dataframe_def list_all_length)

lemma ncols2d_xdata:
  assumes "wf_dataframe df" and "3 \<le> length (df_columns df)"
  shows "ncols2d (map snd (drop 1 (df_columns df))) = length (df_index df)"
proof -
  from assms(2) obtain c0 c1 rest where cols: "df_columns df = c0 # c1 # rest"
    by (cases "df_columns df"; cases "tl (df_columns df)") auto
  have "length (snd (df_columns df ! 1)) = length (df_index df)"
    using assms by (intro wf_column_length) auto
  with cols show ?thesis by (simp add: ncols2d_def)
qed

text \<open>What a successful run of \<open>find_components\<close> has computed on the way.\<close>

lemma find_components_InrD:
  assumes "find_components solver df zero_bound = Inr (components, coefdict)"
  shows "\<exists>scaler fitted.
           3 \<le> length (df_columns df)
         \<and> nedu_scaler (snd (df_columns df ! 0)) = Some scaler
         \<and> solver (map snd (drop 1 (df_columns df))) (snd (df_columns df ! 0))
              (initial_guess df scaler) (if zero_bound then NonNegative else Unbounded) = Inr fitted
         \<and> length fitted = length (df_columns df) - 1
         \<and> build_components df (snd (df_columns df ! 1)) (snd (df_columns df ! 2))
              (zero_small fitted)
              (row_sums (ncols2d (map snd (drop 1 (df_columns df)))) (map snd (drop 1 (df_columns df)))
                 (zero_small fitted))
              (row_sums (ncols2d (map snd (drop 1 (df_columns df)))) (map snd (drop 1 (df_columns df)))
                 (initial_guess df scaler))
            = Inr components
         \<and> coefdict = dict_of_pairs (zip (map fst (drop 1 (df_columns df))) (zero_small fitted))"
  using assms
  by (auto simp: find_components_def iloc_col_def weighted_sum_def Let_def zero_small_def
           split: sum.splits option.splits if_splits)


lemma build_components_keys:
  assumes "build_components df wind_ref pv_ref coefs hist histp0 = Inr components"
  shows "set (dict_keys (df_columns components))
           \<subseteq> set (dict_keys (take 1 (df_columns df))) \<union> set component_names"
  using assms
  by (auto simp: build_components_def set_column_def Let_def dict_keys_setitem component_names_def
           split: sum.splits)

lemma build_components_columns:
  assumes "df_columns df = (n0, load) # rest" and "n0 \<notin> set component_names"
  shows "build_components df wind_ref pv_ref coefs hist histp0 =
           Inr (df\<lparr>df_columns :=
                  [(n0, load), (''Inschatting'', hist), (''p0'', histp0),
                   (''Windopwek'', map (\<lambda>v. v * coefs ! 0) wind_ref),
                   (''Zonne-opwek'', map (\<lambda>v. v * coefs ! 1) pv_ref),
                   (''StandaardVerbruik'',
                      row_sums (length (df_index df)) (map snd (drop 3 (df_columns df))) (drop 2 coefs)),
                   (''Residu'', map (\<lambda>v. - 1 * v) (map2 (\<lambda>a b. b - a) load hist))]\<rparr>)"
  using assms
  by (simp add: build_components_def set_column_def component_names_def diff_axis1_col1_def)

text \<open>
  The columns of the frame that a successful run returns, when the name of the load
  column is not one of the names that \<open>find_components\<close> assigns.
\<close>

lemma find_components_columns:
  assumes fc: "find_components solver df zero_bound = Inr (components, coefdict)"
    and wf: "wf_dataframe df"
    and nm: "fst (df_columns df ! 0) \<notin> set component_names"
  shows "\<exists>hist rest.
           df_columns components =
             (fst (df_columns df ! 0), snd (df_columns df ! 0)) # (''Inschatting'', hist) # rest
         \<and> length hist = length (df_index df)
         \<and> length (snd (df_columns df ! 0)) = length (df_index df)
         \<and> dict_getitem (df_columns components) ''Inschatting'' = Inr hist
         \<and> dict_getitem (df_columns components) ''Residu''
             = Inr (map2 (\<lambda>l e. l - e) (snd (df_columns df ! 0)) hist)"
proof -
  let ?xdata = "map snd (drop 1 (df_columns df))"
  from find_components_InrD[OF fc] obtain scaler fitted where
    k: "3 \<le> length (df_columns df)" and
    bc: "build_components df (snd (df_columns df ! 1)) (snd (df_columns df ! 2))
           (zero_small fitted)
           (row_sums (ncols2d ?xdata) ?xdata (zero_small fitted))
           (row_sums (ncols2d ?xdata) ?xdata (initial_guess df scaler)) = Inr components"
    by blast
  from k obtain n0 load0 rest where cols: "df_columns df = (n0, load0) # rest"
    by (cases "df_columns df") auto
  with nm have n0: "n0 \<notin> set component_names" by simp
  define hist where "hist = row_sums (ncols2d ?xdata) ?xdata (zero_small fitted)"
  have len_hist: "length hist = length (df_index df)"
    using ncols2d_xdata[OF wf k] by (simp add: hist_def length_row_sums)
  have len_load: "length load0 = length (df_index df)"
    using wf_column_length[OF wf, of 0] cols by simp
  note comps = bc[unfolded build_components_columns[OF cols n0], folded hist_def]
  let ?residual = "map (\<lambda>v. - 1 * v) (map2 (\<lambda>a b. b - a) load0 hist)"
  let ?rest = "[(''p0'', row_sums (ncols2d ?xdata) ?xdata (initial_guess df scaler)),
              (''Windopwek'', map (\<lambda>v. v * zero_small fitted ! 0) (snd (df_columns df ! 1))),
              (''Zonne-opwek'', map (\<lambda>v. v * zero_small fitted ! 1) (snd (df_columns df ! 2))),
              (''StandaardVerbruik'',
                 row_sums (length (df_index df)) (map snd (drop 3 (df_columns df)))
                   (drop 2 (zero_small fitted))),
              (''Residu'', ?residual)]"
  have c: "df_columns components = (n0, load0) # (''Inschatting'', hist) # ?rest"
    using comps by auto
  have e: "dict_getitem (df_columns components) ''Inschatting'' = Inr hist"
    using n0 by (auto simp: c dict_getitem_def component_names_def)
  have r: "dict_getitem (df_columns components) ''Residu'' = Inr ?residual"
    using n0 by (auto simp: c dict_getitem_def component_names_def)
  have r': "?residual = map2 (\<lambda>l e. l - e) load0 hist"
    by (simp add: map_zip_map map_zip_map2 zip_map_map split_def)
  from c e r r' len_hist len_load cols show ?thesis by simp
qed

lemma upt_3: "[0..<3] = [0, 1, 2]"
  by (simp add: upt_rec)

lemmas find_components_eval =
  find_components_def iloc_col_def nedu_scaler_def series_max_def series_min_def
  initial_guess_def zero_small_def weighted_sum_def row_sums_def ncols2d_def
  build_components_def set_column_def diff_axis1_col1_def dict_of_pairs_def
  constant_fit_def upt_3

lemma find_components_example:
  "find_components (constant_fit [2/3, 2/3]) example_table True
   = Inr (example_components, [(''wind_ref'', 2/3), (''pv_ref'', 2/3)])"
  by (simp add: find_components_eval example_table_def example_components_def)

text \<open>
  The weights \<open>2/3, 2/3\<close> are the least-squares fit of the example table: no other pair
  of weights has a smaller sum of squared errors.
\<close>

lemma example_fit_least_squares:
  "sum_list (map2 (\<lambda>y e. (y - e)\<^sup>2) [1, 1, 1] (row_sums 3 [[1, 0, 1], [0, 1, 1]] [2/3, 2/3]))
   \<le> sum_list (map2 (\<lambda>y e. (y - e)\<^sup>2) [1, 1, 1] (row_sums 3 [[1, 0, 1], [0, 1, 1]] [w, p]))"
proof -
  have "(1 - w)\<^sup>2 + ((1 - p)\<^sup>2 + (1 - (w + p))\<^sup>2)
          = 1/3 + ((w - 2/3)\<^sup>2 + (p - 2/3)\<^sup>2 + (w + p - 4/3)\<^sup>2)"
    by (simp add: power2_eq_square algebra_simps)
  moreover have "0 \<le> (w - 2/3)\<^sup>2 + (p - 2/3)\<^sup>2 + (w + p - 4/3)\<^sup>2"
    by simp
  ultimately have "1/3 \<le> (1 - w)\<^sup>2 + ((1 - p)\<^sup>2 + (1 - (w + p))\<^sup>2)"
    by linarith
  then show ?thesis
    by (simp add: row_sums_def upt_3 power2_eq_square)
qed

text \<open>
  C1, as the code has it. In the frame that \<open>find_components\<close> returns, the \<open>Residu\<close>
  column is, row by row, the load minus the estimate (\<open>Inschatting\<close>): line 186 negates
  the difference estimate minus load. This holds for a well-formed table whose load column
  does not bear one of the names that \<open>find_components\<close> assigns.
\<close>

theorem residual_is_load_minus_estimate:
  assumes "find_components solver df zero_bound = Inr (components, coefdict)"
    and "wf_dataframe df"
    and "fst (df_columns df ! 0) \<notin> set component_names"
    and "iloc_col components 0 = Inr load"
    and "dict_getitem (df_columns components) ''Inschatting'' = Inr estimate"
  shows "dict_getitem (df_columns components) ''Residu'' = Inr (map2 (\<lambda>l e. l - e) load estimate)
         \<and> iloc_col df 0 = Inr load
         \<and> length load = length (df_index df)
         \<and> length estimate = length (df_index df)"
proof -
  from find_components_columns[OF assms(1-3)] obtain hist rest where
    c: "df_columns components =
          (fst (df_columns df ! 0), snd (df_columns df ! 0)) # (''Inschatting'', hist) # rest" and
    len: "length hist = length (df_index df)"
         "length (snd (df_columns df ! 0)) = length (df_index df)" and
    e: "dict_getitem (df_columns components) ''Inschatting'' = Inr hist" and
    r: "dict_getitem (df_columns components) ''Residu''
          = Inr (map2 (\<lambda>l e. l - e) (snd (df_columns df ! 0)) hist)"
    by blast
  from find_components_InrD[OF assms(1)] have k: "3 \<le> length (df_columns df)" by blast
  from c assms(4) have load: "load = snd (df_columns df ! 0)" by (simp add: iloc_col_def)
  from e assms(5) have est: "estimate = hist" by simp
  from k have "iloc_col df 0 = Inr (snd (df_columns df ! 0))" by (auto simp: iloc_col_def)
  with r len show ?thesis unfolding load est by simp
qed

theorem residual_is_load_minus_estimate_witness:
  "find_components (constant_fit [2/3, 2/3]) example_table True
     = Inr (example_components, [(''wind_ref'', 2/3), (''pv_ref'', 2/3)])
   \<and> dict_getitem (df_columns example_components) ''Residu''
       = Inr (map2 (\<lambda>l e. l - e) [1, 1, 1] [2/3, 2/3, 4/3])"
proof -
  have wf: "wf_dataframe example_table"
    by (simp add: wf_dataframe_def example_table_def)
  have nm: "fst (df_columns example_table ! 0) \<notin> set component_names"
    by (simp add: example_table_def component_names_def)
  have ld: "iloc_col example_components 0 = Inr [1, 1, 1]"
    by (simp add: example_components_def iloc_col_def)
  have est: "dict_getitem (df_columns example_components) ''Inschatting'' = Inr [2/3, 2/3, 4/3]"
    by (simp add: example_components_def dict_getitem_def)
  from residual_is_load_minus_estimate[OF find_components_example wf nm ld est]
  show ?thesis by (simp add: find_components_example)
qed

text \<open>
  C1 as stated fails: on the example table the estimate is \<open>2/3, 2/3, 4/3\<close> and the load
  is \<open>1, 1, 1\<close>; the \<open>Residu\<close> column is \<open>1/3, 1/3, - 1/3\<close>, which is not estimate
  minus load.
\<close>

theorem residual_sign_counterexample:
  "find_components (constant_fit [2/3, 2/3]) example_table True
     = Inr (example_components, [(''wind_ref'', 2/3), (''pv_ref'', 2/3)])
   \<and> iloc_col example_components 0 = Inr [1, 1, 1]
   \<and> dict_getitem (df_columns example_components) ''Inschatting'' = Inr [2/3, 2/3, 4/3]
   \<and> dict_getitem (df_columns example_components) ''Residu'' = Inr [1/3, 1/3, - (1/3)]
   \<and> [1/3, 1/3, - (1/3)] \<noteq> map2 (\<lambda>e l. e - l) [2/3, 2/3, 4/3] [1, 1, 1 :: real]"
  by (simp add: find_components_example)
     (simp add: example_components_def iloc_col_def dict_getitem_def)

text \<open>
  Line 173 replaces a weight by \<open>0\<close> exactly when the weight itself is below \<open>0.1\<close>.
  For weights that are not negative, as the zero bound gives them, this is the test on
  the absolute value.
\<close>

lemma zero_small_nth:
  "i < length fitted \<Longrightarrow> zero_small fitted ! i = (if fitted ! i < 0.1 then 0 else fitted ! i)"
  by (simp add: zero_small_def)

lemma zero_small_nonneg:
  "\<forall>c \<in> set fitted. 0 \<le> c \<Longrightarrow>
   zero_small fitted = map (\<lambda>c. if \<bar>c\<bar> < 0.1 then 0 else c) fitted"
  by (simp add: zero_small_def)

text \<open>
  C3 at a failing input. Without the zero bound, the exact fit of
  \<open>negative_wind_table\<close> has the wind weight \<open>- 5\<close>, of absolute value \<open>5\<close>; line 173
  compares the weight itself with \<open>0.1\<close>, not its absolute value, and the weight comes
  back as \<open>0\<close>.
\<close>

theorem negative_weight_is_zeroed:
  "find_components (constant_fit [- 5, 1]) negative_wind_table False
     = Inr (\<lparr>df_index = [0, 900, 1800],
             df_columns =
               [(''load'', [- 5, 1, - 4]), (''Inschatting'', [0, 1, 1]), (''p0'', [1, 1, 2]),
                (''Windopwek'', [0, 0, 0]), (''Zonne-opwek'', [0, 1, 1]),
                (''StandaardVerbruik'', [0, 0, 0]), (''Residu'', [- 5, 0, - 5])]\<rparr>,
            [(''wind_ref'', 0), (''pv_ref'', 1)])
   \<and> zero_small [- 5, 1] = [0, 1]
   \<and> \<not> \<bar>- 5 :: real\<bar> < 0.1"
  by (simp add: find_components_eval negative_wind_table_def Let_def)
subsection \<open>The initial guess and the baseline estimate\<close>

lemma series_max_eq: "xs \<noteq> [] \<Longrightarrow> series_max xs = Some (Max (set xs))"
  by (cases xs) (simp_all add: series_max_def Max.set_eq_fold[symmetric])

lemma series_min_eq: "xs \<noteq> [] \<Longrightarrow> series_min xs = Some (Min (set xs))"
  by (cases xs) (simp_all add: series_min_def Min.set_eq_fold[symmetric])

lemma nedu_scaler_eq:
  "nedu_scaler load = (if load = [] then None else Some ((Max (set load) - Min (set load)) / 10))"
  by (cases "load = []")
     (simp_all add: nedu_scaler_def series_max_eq series_min_eq, simp add: series_max_def)





subsection \<open>The result formatter\<close>

text \<open>A dictionary has one entry per key: the operations that build one keep the keys distinct.\<close>

lemma dict_keys_setitem_list:
  "dict_keys (dict_setitem k v d) = (if k \<in> set (dict_keys d) then dict_keys d else dict_keys d @ [k])"
  by (induction d) (auto simp: dict_keys_def)

lemma distinct_dict_setitem:
  "distinct (dict_keys d) \<Longrightarrow> distinct (dict_keys (dict_setitem k v d))"
  by (simp add: dict_keys_setitem_list)

lemma distinct_fold_setitem:
  "distinct (dict_keys d) \<Longrightarrow>
   distinct (dict_keys (fold (\<lambda>(k, v) d. dict_setitem k v d) ps d))"
  by (induction ps arbitrary: d) (auto simp: distinct_dict_setitem)

lemma distinct_dict_of_pairs: "distinct (dict_keys (dict_of_pairs ps))"
  using distinct_fold_setitem[of "[]" ps] by (simp add: dict_of_pairs_def dict_keys_def)

lemma index_min_eq: "index_min ts = (if ts = [] then None else Some (Min (set ts)))"
  by (cases ts) (simp_all add: index_min_def Min.set_eq_fold[symmetric])

lemma index_max_eq: "index_max ts = (if ts = [] then None else Some (Max (set ts)))"
  by (cases ts) (simp_all add: index_max_def Max.set_eq_fold[symmetric])

lemma mono_date_of: "mono date_of"
  by (rule monoI) (simp add: date_of_def zdiv_mono1)

lemma date_of_Min: "ts \<noteq> [] \<Longrightarrow> date_of (Min (set ts)) = Min (date_of ` set ts)"
  by (rule mono_Min_commute[OF mono_date_of]) simp_all

lemma date_of_Max: "ts \<noteq> [] \<Longrightarrow> date_of (Max (set ts)) = Max (date_of ` set ts)"
  by (rule mono_Max_commute[OF mono_date_of]) simp_all

text \<open>
  C6. The formatter returns one row per entry of the coefficient mapping, in order, with
  the names and the values of the entries; for a mapping (keys distinct) the number of
  rows is the number of keys. Every row carries the job id, the time of the call, and as
  start and end date the least and the greatest date of the index of the input table
  (\<open>NaT\<close>, here \<open>None\<close>, for an empty index).
\<close>

theorem convert_coefdict_to_coefsdf_rows:
  "length (convert_coefdict_to_coefsdf pj input_split_function coefdict now) = length coefdict
   \<and> (distinct (dict_keys coefdict) \<longrightarrow>
        length (convert_coefdict_to_coefsdf pj input_split_function coefdict now)
          = card (set (dict_keys coefdict)))
   \<and> map coef_name (convert_coefdict_to_coefsdf pj input_split_function coefdict now)
        = dict_keys coefdict
   \<and> map coef_value (convert_coefdict_to_coefsdf pj input_split_function coefdict now)
        = dict_values coefdict
   \<and> (\<forall>row \<in> set (convert_coefdict_to_coefsdf pj input_split_function coefdict now).
         pid row = pj_id pj \<and> created row = now
       \<and> date_start row =
            (if df_index input_split_function = [] then None
             else Some (Min (date_of ` set (df_index input_split_function))))
       \<and> date_end row =
            (if df_index input_split_function = [] then None
             else Some (Max (date_of ` set (df_index input_split_function)))))"
proof -
  let ?rows = "convert_coefdict_to_coefsdf pj input_split_function coefdict now"
  have len: "length ?rows = length coefdict"
    by (simp add: convert_coefdict_to_coefsdf_def dict_keys_def dict_values_def)
  have card: "length ?rows = card (set (dict_keys coefdict))" if "distinct (dict_keys coefdict)"
    using distinct_card[OF that] len by (simp add: dict_keys_def)
  have names: "map coef_name ?rows = dict_keys coefdict"
    by (simp add: convert_coefdict_to_coefsdf_def dict_keys_def dict_values_def
                  zip_map_fst_snd split_def comp_def)
  have vals: "map coef_value ?rows = dict_values coefdict"
    by (simp add: convert_coefdict_to_coefsdf_def dict_keys_def dict_values_def
                  zip_map_fst_snd split_def comp_def)
  have rows: "pid row = pj_id pj \<and> created row = now
       \<and> date_start row =
            (if df_index input_split_function = [] then None
             else Some (Min (date_of ` set (df_index input_split_function))))
       \<and> date_end row =
            (if df_index input_split_function = [] then None
             else Some (Max (date_of ` set (df_index input_split_function))))"
    if "row \<in> set ?rows" for row
    using that
    by (auto simp: convert_coefdict_to_coefsdf_def index_min_eq index_max_eq
                   date_of_Min date_of_Max)
  from len card names vals rows show ?thesis by blast
qed

theorem convert_coefdict_to_coefsdf_rows_witness:
  "length (convert_coefdict_to_coefsdf \<lparr>pj_id = 307\<rparr> example_table [(''a'', 1), (''b'', 2)] 1000)
     = card {''a'', ''b''}
   \<and> convert_coefdict_to_coefsdf \<lparr>pj_id = 307\<rparr> example_table [(''a'', 1), (''b'', 2)] 1000
     = [\<lparr>coef_name = ''a'', coef_value = 1, pid = 307,
          date_start = Some 0, date_end = Some 0, created = 1000\<rparr>,
        \<lparr>coef_name = ''b'', coef_value = 2, pid = 307,
          date_start = Some 0, date_end = Some 0, created = 1000\<rparr>]"
proof -
  have d: "distinct (dict_keys [(''a'', 1 :: real), (''b'', 2)])"
    by (simp add: dict_keys_def)
  from convert_coefdict_to_coefsdf_rows[of "\<lparr>pj_id = 307\<rparr>" example_table
         "[(''a'', 1), (''b'', 2)]" 1000] d
  have "length (convert_coefdict_to_coefsdf \<lparr>pj_id = 307\<rparr> example_table
                  [(''a'', 1), (''b'', 2)] 1000)
          = card (set (dict_keys [(''a'', 1 :: real), (''b'', 2)]))"
    by blast
  then have "length (convert_coefdict_to_coefsdf \<lparr>pj_id = 307\<rparr> example_table
                  [(''a'', 1), (''b'', 2)] 1000) = card {''a'', ''b''}"
    by (simp add: dict_keys_def)
  moreover have "convert_coefdict_to_coefsdf \<lparr>pj_id = 307\<rparr> example_table
                   [(''a'', 1), (''b'', 2)] 1000
     = [\<lparr>coef_name = ''a'', coef_value = 1, pid = 307,
          date_start = Some 0, date_end = Some 0, created = 1000\<rparr>,
        \<lparr>coef_name = ''b'', coef_value = 2, pid = 307,
          date_start = Some 0, date_end = Some 0, created = 1000\<rparr>]"
    by (simp add: convert_coefdict_to_coefsdf_def dict_keys_def dict_values_def
                  example_table_def index_min_def index_max_def date_of_def)
  ultimately show ?thesis by (rule conjI)
qed
subsection \<open>The orchestrator\<close>

text \<open>What a successful run of lines 28 to 47 has computed on the way.\<close>

lemma fit_candidate_InrD:
  assumes "fit_candidate env job_pid tr = (Inr (pj, input_split_function, coefdict, coefsdf), tr')"
  shows "\<exists>components cd sel error mae.
           get_prediction_job (db env) job_pid = Inr pj
         \<and> get_input_energy_splitting (db env) pj = Inr input_split_function
         \<and> find_components (curve_fit env) input_split_function True = Inr (components, cd)
         \<and> getitem_columns components [''load'', ''Inschatting''] = Inr sel
         \<and> diff_axis1_col1 sel = Inr error
         \<and> series_mean (map abs error) = Some mae
         \<and> coefdict = dict_setitem ''MAE'' mae cd
         \<and> coefsdf = convert_coefdict_to_coefsdf pj input_split_function coefdict (utcnow env 0)
         \<and> tr' = tr @ [LogInfo ''Start splitting energy'']"
  using assms
  by (auto simp: fit_candidate_def Let_def split: sum.splits option.splits prod.splits)

lemma getitem_columns_load_estimate:
  assumes "getitem_columns components [''load'', ''Inschatting''] = Inr sel"
    and "diff_axis1_col1 sel = Inr error"
  shows "\<exists>load estimate.
           dict_getitem (df_columns components) ''load'' = Inr load
         \<and> dict_getitem (df_columns components) ''Inschatting'' = Inr estimate
         \<and> error = map2 (\<lambda>a b. b - a) load estimate"
  using assms
  by (auto simp: getitem_columns_def diff_axis1_col1_def split: sum.splits)

lemma fit_candidate_example:
  "fit_candidate (example_env mean_coefs last_coefs) 307 []
   = (Inr (\<lparr>pj_id = 307\<rparr>, example_table,
           [(''wind_ref'', 2/3), (''pv_ref'', 2/3), (''MAE'', 1/3)],
           convert_coefdict_to_coefsdf \<lparr>pj_id = 307\<rparr> example_table
             [(''wind_ref'', 2/3), (''pv_ref'', 2/3), (''MAE'', 1/3)] 1000),
      [LogInfo ''Start splitting energy''])"
  by (simp add: fit_candidate_def example_env_def example_db_def find_components_example)
     (simp add: example_components_def getitem_columns_def dict_getitem_def
                diff_axis1_col1_def series_mean_def Let_def)

text \<open>
  A frame returned by \<open>find_components\<close> that has a \<open>load\<close> column: the column is the
  first column of the input, it is not empty, and the estimate has as many rows.
\<close>

lemma components_load_estimate:
  assumes fc: "find_components solver df zero_bound = Inr (components, cd)"
    and wf: "wf_dataframe df"
    and ld: "dict_getitem (df_columns components) ''load'' = Inr load"
    and es: "dict_getitem (df_columns components) ''Inschatting'' = Inr estimate"
  shows "load \<noteq> [] \<and> length estimate = length load"
proof -
  from find_components_InrD[OF fc] obtain scaler wind_ref pv_ref coefs hist histp0 where
    k: "3 \<le> length (df_columns df)" and
    ns: "nedu_scaler (snd (df_columns df ! 0)) = Some scaler" and
    bc: "build_components df wind_ref pv_ref coefs hist histp0 = Inr components"
    by blast
  from ld have "''load'' \<in> set (dict_keys (df_columns components))"
    using dict_getitem_Inr_iff[of "df_columns components" "''load''"] by blast
  with build_components_keys[OF bc]
  have "''load'' \<in> set (dict_keys (take 1 (df_columns df)))"
    by (auto simp: component_names_def)
  with k have n0: "fst (df_columns df ! 0) = ''load''"
    by (cases "df_columns df") (auto simp: dict_keys_def)
  then have nm: "fst (df_columns df ! 0) \<notin> set component_names"
    by (simp add: component_names_def)
  from find_components_columns[OF fc wf nm] obtain h rest where
    c: "df_columns components =
          (fst (df_columns df ! 0), snd (df_columns df ! 0)) # (''Inschatting'', h) # rest" and
    len: "length h = length (df_index df)"
         "length (snd (df_columns df ! 0)) = length (df_index df)" and
    e: "dict_getitem (df_columns components) ''Inschatting'' = Inr h"
    by blast
  from c n0 ld have load: "load = snd (df_columns df ! 0)"
    by (simp add: dict_getitem_def)
  from e es have est: "estimate = h" by simp
  from ns load have "load \<noteq> []"
    by (auto simp: nedu_scaler_eq split: if_splits)
  with len load est show ?thesis by simp
qed

text \<open>
  So, for a well-formed input table, the mean in \<open>fit_candidate\<close> is taken over a
  series that is not empty.
\<close>

lemma fit_candidate_mean_defined:
  assumes "find_components solver df zero_bound = Inr (components, cd)"
    and "wf_dataframe df"
    and "getitem_columns components [''load'', ''Inschatting''] = Inr sel"
    and "diff_axis1_col1 sel = Inr error"
  shows "series_mean (map abs error) \<noteq> None"
proof -
  from getitem_columns_load_estimate[OF assms(3,4)] obtain load estimate where
    ld: "dict_getitem (df_columns components) ''load'' = Inr load" and
    es: "dict_getitem (df_columns components) ''Inschatting'' = Inr estimate" and
    error: "error = map2 (\<lambda>a b. b - a) load estimate"
    by blast
  from components_load_estimate[OF assms(1,2) ld es] error
  have "error \<noteq> []" by auto
  then show ?thesis by (simp add: series_mean_def)
qed

text \<open>
  C7. After a successful fit, the value that the orchestrator stores in the coefficient
  set under the key \<open>MAE\<close> is the mean, over the rows of the frame that
  \<open>find_components\<close> returned, of the absolute difference between the \<open>load\<close> column and
  the estimate column \<open>Inschatting\<close>; the frame has at least one row.
\<close>

theorem mae_is_mean_absolute_error:
  assumes "fit_candidate env job_pid tr = (Inr (pj, input_split_function, coefdict, coefsdf), tr')"
    and "wf_dataframe input_split_function"
    and "find_components (curve_fit env) input_split_function True = Inr (components, cd)"
    and "dict_getitem (df_columns components) ''load'' = Inr load"
    and "dict_getitem (df_columns components) ''Inschatting'' = Inr estimate"
  shows "load \<noteq> [] \<and> length estimate = length load
       \<and> dict_getitem coefdict ''MAE''
           = Inr (sum_list (map2 (\<lambda>l e. \<bar>l - e\<bar>) load estimate) / real (length load))
       \<and> coefsdf = convert_coefdict_to_coefsdf pj input_split_function coefdict (utcnow env 0)"
proof -
  from fit_candidate_InrD[OF assms(1)] assms(3) obtain sel error mae where
    sel: "getitem_columns components [''load'', ''Inschatting''] = Inr sel" and
    err: "diff_axis1_col1 sel = Inr error" and
    mean: "series_mean (map abs error) = Some mae" and
    cd: "coefdict = dict_setitem ''MAE'' mae cd" and
    df: "coefsdf = convert_coefdict_to_coefsdf pj input_split_function coefdict (utcnow env 0)"
    by auto
  from getitem_columns_load_estimate[OF sel err] assms(4,5)
  have error: "error = map2 (\<lambda>a b. b - a) load estimate" by auto
  from components_load_estimate[OF assms(3,2,4,5)]
  have ne: "load \<noteq> []" and same: "length estimate = length load" by simp_all
  have abs_error: "map abs error = map2 (\<lambda>l e. \<bar>l - e\<bar>) load estimate"
    by (simp add: error map_zip_map map_zip_map2 split_def abs_minus_commute)
  from mean have mae: "mae = sum_list (map abs error) / real (length (map abs error))"
    by (auto simp: series_mean_def split: if_splits)
  have "length (map abs error) = length load"
    by (simp add: error same)
  with ne same mae abs_error cd df show ?thesis
    by (simp add: dict_getitem_setitem)
qed

theorem mae_is_mean_absolute_error_witness:
  "fit_candidate (example_env [] []) 307 []
   = (Inr (\<lparr>pj_id = 307\<rparr>, example_table,
           [(''wind_ref'', 2/3), (''pv_ref'', 2/3), (''MAE'', 1/3)],
           convert_coefdict_to_coefsdf \<lparr>pj_id = 307\<rparr> example_table
             [(''wind_ref'', 2/3), (''pv_ref'', 2/3), (''MAE'', 1/3)] 1000),
      [LogInfo ''Start splitting energy''])
   \<and> dict_getitem [(''wind_ref'', 2/3), (''pv_ref'', 2/3), (''MAE'', 1/3)] ''MAE''
       = Inr (sum_list (map2 (\<lambda>l e. \<bar>l - e\<bar>) [1, 1, 1] [2/3, 2/3, 4/3]) / real (length [1, 1, 1 :: real]))"
proof -
  have wf: "wf_dataframe example_table"
    by (simp add: wf_dataframe_def example_table_def)
  have fc: "find_components (curve_fit (example_env [] [])) example_table True
              = Inr (example_components, [(''wind_ref'', 2/3), (''pv_ref'', 2/3)])"
    by (simp add: example_env_def find_components_example)
  have ld: "dict_getitem (df_columns example_components) ''load'' = Inr [1, 1, 1]"
    by (simp add: example_components_def dict_getitem_def)
  have est: "dict_getitem (df_columns example_components) ''Inschatting'' = Inr [2/3, 2/3, 4/3]"
    by (simp add: example_components_def dict_getitem_def)
  from mae_is_mean_absolute_error[OF fit_candidate_example wf fc ld est]
  have "dict_getitem [(''wind_ref'', 2/3), (''pv_ref'', 2/3), (''MAE'', 1/3)] ''MAE''
       = Inr (sum_list (map2 (\<lambda>l e. \<bar>l - e\<bar>) [1, 1, 1] [2/3, 2/3, 4/3])
              / real (length [1, 1, 1 :: real]))"
    by blast
  with fit_candidate_example show ?thesis by (rule conjI)
qed
lemma alert_message_307:
  "alert_message \<lparr>pj_id = 307\<rparr>
   = ''New splitting coefficients for pid 307 deviate strongly from previously stored coefficients.''"
  by (simp add: alert_message_def str_int_def str_nat.simps)

text \<open>
  C2. When the validator rejects the candidate coefficients, \<open>split_energy\<close> records,
  after the log line of the start, exactly one alert, which carries the rejected record,
  and no write; it returns the last known coefficients of the store, formatted by the
  formatter at the second reading of the clock (or the error of that fetch).
\<close>

theorem rejection_alerts_and_falls_back:
  assumes "fit_candidate env job_pid tr = (Inr (pj, input_split_function, coefdict, coefsdf), tr')"
    and "get_energy_split_coefs (db env) pj True = Inr mean_coefs"
    and "are_new_coefs_valid coefdict mean_coefs = Inr False"
  shows "split_energy env job_pid tr =
           (case get_energy_split_coefs (db env) pj False of
              Inl e \<Rightarrow> Inl e
            | Inr last_coefdict \<Rightarrow>
                Inr (convert_coefdict_to_coefsdf pj input_split_function last_coefdict (utcnow env 1)),
            tr @ [LogInfo ''Start splitting energy'', PostTeamsAlert (alert_message pj) coefsdf])
       \<and> coefsdf = convert_coefdict_to_coefsdf pj input_split_function coefdict (utcnow env 0)
       \<and> (\<forall>rows. WriteEnergySplittingCoefficients rows \<in> set (snd (split_energy env job_pid tr))
             \<longrightarrow> WriteEnergySplittingCoefficients rows \<in> set tr)"
proof -
  from fit_candidate_InrD[OF assms(1)] have
    tr': "tr' = tr @ [LogInfo ''Start splitting energy'']" and
    df: "coefsdf = convert_coefdict_to_coefsdf pj input_split_function coefdict (utcnow env 0)"
    by auto
  have run: "split_energy env job_pid tr =
           (case get_energy_split_coefs (db env) pj False of
              Inl e \<Rightarrow> Inl e
            | Inr last_coefdict \<Rightarrow>
                Inr (convert_coefdict_to_coefsdf pj input_split_function last_coefdict (utcnow env 1)),
            tr @ [LogInfo ''Start splitting energy'', PostTeamsAlert (alert_message pj) coefsdf])"
    using assms tr'
    by (simp add: split_energy_def persist_or_alert_def Let_def split: sum.splits)
  then have "snd (split_energy env job_pid tr)
               = tr @ [LogInfo ''Start splitting energy'', PostTeamsAlert (alert_message pj) coefsdf]"
    by simp
  then have "\<forall>rows. WriteEnergySplittingCoefficients rows \<in> set (snd (split_energy env job_pid tr))
             \<longrightarrow> WriteEnergySplittingCoefficients rows \<in> set tr"
    by simp
  with run df show ?thesis by blast
qed

theorem rejection_alerts_and_falls_back_witness:
  "split_energy (example_env [(''wind_ref'', 2)] [(''wind_ref'', 1), (''pv_ref'', 1)]) 307 []
   = (Inr (convert_coefdict_to_coefsdf \<lparr>pj_id = 307\<rparr> example_table
             [(''wind_ref'', 1), (''pv_ref'', 1)] 1001),
      [LogInfo ''Start splitting energy'',
       PostTeamsAlert
         ''New splitting coefficients for pid 307 deviate strongly from previously stored coefficients.''
         (convert_coefdict_to_coefsdf \<lparr>pj_id = 307\<rparr> example_table
            [(''wind_ref'', 2/3), (''pv_ref'', 2/3), (''MAE'', 1/3)] 1000)])"
proof -
  let ?env = "example_env [(''wind_ref'', 2)] [(''wind_ref'', 1), (''pv_ref'', 1)]"
  have mean: "get_energy_split_coefs (db ?env) \<lparr>pj_id = 307\<rparr> True = Inr [(''wind_ref'', 2)]"
    by (simp add: example_env_def example_db_def)
  have rej: "are_new_coefs_valid [(''wind_ref'', 2/3), (''pv_ref'', 2/3), (''MAE'', 1/3)]
               [(''wind_ref'', 2)] = Inr False"
    by (simp add: validator_eval)
  from rejection_alerts_and_falls_back[OF fit_candidate_example mean rej]
  show ?thesis
    by (simp add: alert_message_307) (simp add: example_env_def example_db_def)
qed

text \<open>
  C4, as the code has it. The validator compares every key of the historical mean
  mapping, \<open>MAE\<close> included when the mean mapping has it. The decision depends on the new
  coefficient set only through its values at the keys of the mean mapping; so the
  \<open>MAE\<close> entry that the orchestrator adds does not change the outcome when \<open>MAE\<close> is
  not a key of the mean mapping.
\<close>

theorem validity_depends_on_mean_keys:
  "((\<forall>key \<in> set (dict_keys mean_coefs). dict_getitem coefdict key = dict_getitem coefdict' key)
      \<longrightarrow> are_new_coefs_valid coefdict mean_coefs = are_new_coefs_valid coefdict' mean_coefs)
   \<and> (''MAE'' \<notin> set (dict_keys mean_coefs)
      \<longrightarrow> are_new_coefs_valid (dict_setitem ''MAE'' mae coefdict) mean_coefs
          = are_new_coefs_valid coefdict mean_coefs)"
proof -
  have 1: "are_new_coefs_valid c mean_coefs = are_new_coefs_valid c' mean_coefs"
    if "\<forall>key \<in> set (dict_keys mean_coefs). dict_getitem c key = dict_getitem c' key" for c c'
    using coefs_loop_cong[OF that] by (simp add: are_new_coefs_valid_def)
  have 2: "are_new_coefs_valid (dict_setitem ''MAE'' mae coefdict) mean_coefs
          = are_new_coefs_valid coefdict mean_coefs"
    if "''MAE'' \<notin> set (dict_keys mean_coefs)"
    using that by (intro 1) (auto simp: dict_getitem_setitem)
  from 1 2 show ?thesis by blast
qed

theorem validity_depends_on_mean_keys_witness:
  "are_new_coefs_valid (dict_setitem ''MAE'' 50 [(''wind_ref'', 2/3), (''pv_ref'', 2/3)])
                       [(''wind_ref'', 2/3), (''pv_ref'', 2/3)]
   = are_new_coefs_valid [(''wind_ref'', 2/3), (''pv_ref'', 2/3)]
                         [(''wind_ref'', 2/3), (''pv_ref'', 2/3)]
   \<and> are_new_coefs_valid [(''wind_ref'', 2/3), (''pv_ref'', 2/3), (''MAE'', 50)]
                          [(''wind_ref'', 2/3), (''pv_ref'', 2/3)]
   = are_new_coefs_valid [(''pv_ref'', 2/3), (''wind_ref'', 2/3), (''MAE'', 1/3)]
                         [(''wind_ref'', 2/3), (''pv_ref'', 2/3)]"
proof -
  let ?mean = "[(''wind_ref'', 2/3 :: real), (''pv_ref'', 2/3)]"
  have no_mae: "''MAE'' \<notin> set (dict_keys ?mean)"
    by (simp add: dict_keys_def)
  have agree: "\<forall>key \<in> set (dict_keys ?mean).
      dict_getitem [(''wind_ref'', 2/3 :: real), (''pv_ref'', 2/3), (''MAE'', 50)] key
      = dict_getitem [(''pv_ref'', 2/3), (''wind_ref'', 2/3), (''MAE'', 1/3)] key"
    by (simp add: dict_keys_def dict_getitem_def)
  from validity_depends_on_mean_keys[of ?mean
         "[(''wind_ref'', 2/3), (''pv_ref'', 2/3), (''MAE'', 50)]"
         "[(''pv_ref'', 2/3), (''wind_ref'', 2/3), (''MAE'', 1/3)]" 50
         ] agree
  have a: "are_new_coefs_valid [(''wind_ref'', 2/3), (''pv_ref'', 2/3), (''MAE'', 50)] ?mean
   = are_new_coefs_valid [(''pv_ref'', 2/3), (''wind_ref'', 2/3), (''MAE'', 1/3)] ?mean"
    by blast
  from validity_depends_on_mean_keys[of ?mean "[(''wind_ref'', 2/3), (''pv_ref'', 2/3)]"
         "[(''wind_ref'', 2/3), (''pv_ref'', 2/3)]" 50] no_mae
  have b: "are_new_coefs_valid (dict_setitem ''MAE'' 50 [(''wind_ref'', 2/3), (''pv_ref'', 2/3)]) ?mean
   = are_new_coefs_valid [(''wind_ref'', 2/3), (''pv_ref'', 2/3)] ?mean"
    by blast
  from b a show ?thesis by (rule conjI)
qed

text \<open>
  C4 as stated fails. The fitted weights of the example equal their historical means.
  With a mean mapping without \<open>MAE\<close> the candidate is valid and is written; with the same
  means and a mean \<open>MAE\<close> of \<open>1\<close>, the candidate's \<open>MAE\<close> of \<open>1/3\<close> is out of the
  bound, and the candidate is rejected: an alert, no write, and the last coefficients
  returned.
\<close>

theorem mae_decides_validity_counterexample:
  "split_energy (example_env [(''wind_ref'', 2/3), (''pv_ref'', 2/3)]
                             [(''wind_ref'', 1), (''pv_ref'', 1)]) 307 []
   = (Inr (convert_coefdict_to_coefsdf \<lparr>pj_id = 307\<rparr> example_table
             [(''wind_ref'', 2/3), (''pv_ref'', 2/3), (''MAE'', 1/3)] 1000),
      [LogInfo ''Start splitting energy'',
       WriteEnergySplittingCoefficients
         (convert_coefdict_to_coefsdf \<lparr>pj_id = 307\<rparr> example_table
            [(''wind_ref'', 2/3), (''pv_ref'', 2/3), (''MAE'', 1/3)] 1000),
       LogInfo ''Succesfully wrote energy split coefficients to database''])
   \<and> split_energy (example_env [(''wind_ref'', 2/3), (''pv_ref'', 2/3), (''MAE'', 1)]
                                [(''wind_ref'', 1), (''pv_ref'', 1)]) 307 []
   = (Inr (convert_coefdict_to_coefsdf \<lparr>pj_id = 307\<rparr> example_table
             [(''wind_ref'', 1), (''pv_ref'', 1)] 1001),
      [LogInfo ''Start splitting energy'',
       PostTeamsAlert
         ''New splitting coefficients for pid 307 deviate strongly from previously stored coefficients.''
         (convert_coefdict_to_coefsdf \<lparr>pj_id = 307\<rparr> example_table
            [(''wind_ref'', 2/3), (''pv_ref'', 2/3), (''MAE'', 1/3)] 1000)])
   \<and> are_new_coefs_valid [(''wind_ref'', 2/3), (''pv_ref'', 2/3), (''MAE'', 1/3)]
        [(''wind_ref'', 2/3), (''pv_ref'', 2/3), (''MAE'', 1)] = Inr False
   \<and> are_new_coefs_valid [(''wind_ref'', 2/3), (''pv_ref'', 2/3), (''MAE'', 1)]
        [(''wind_ref'', 2/3), (''pv_ref'', 2/3), (''MAE'', 1)] = Inr True"
proof -
  have v1: "are_new_coefs_valid [(''wind_ref'', 2/3), (''pv_ref'', 2/3), (''MAE'', 1/3)]
        [(''wind_ref'', 2/3), (''pv_ref'', 2/3)] = Inr True"
    by (simp add: validator_eval)
  have v2: "are_new_coefs_valid [(''wind_ref'', 2/3), (''pv_ref'', 2/3), (''MAE'', 1/3)]
        [(''wind_ref'', 2/3), (''pv_ref'', 2/3), (''MAE'', 1)] = Inr False"
    by (simp add: validator_eval)
  have v3: "are_new_coefs_valid [(''wind_ref'', 2/3), (''pv_ref'', 2/3), (''MAE'', 1)]
        [(''wind_ref'', 2/3), (''pv_ref'', 2/3), (''MAE'', 1)] = Inr True"
    by (simp add: validator_eval)
  have r1: "split_energy (example_env [(''wind_ref'', 2/3), (''pv_ref'', 2/3)]
                             [(''wind_ref'', 1), (''pv_ref'', 1)]) 307 []
   = (Inr (convert_coefdict_to_coefsdf \<lparr>pj_id = 307\<rparr> example_table
             [(''wind_ref'', 2/3), (''pv_ref'', 2/3), (''MAE'', 1/3)] 1000),
      [LogInfo ''Start splitting energy'',
       WriteEnergySplittingCoefficients
         (convert_coefdict_to_coefsdf \<lparr>pj_id = 307\<rparr> example_table
            [(''wind_ref'', 2/3), (''pv_ref'', 2/3), (''MAE'', 1/3)] 1000),
       LogInfo ''Succesfully wrote energy split coefficients to database''])"
    by (simp add: split_energy_def fit_candidate_example persist_or_alert_def)
       (simp add: example_env_def example_db_def v1)
  have r2: "split_energy (example_env [(''wind_ref'', 2/3), (''pv_ref'', 2/3), (''MAE'', 1)]
                                [(''wind_ref'', 1), (''pv_ref'', 1)]) 307 []
   = (Inr (convert_coefdict_to_coefsdf \<lparr>pj_id = 307\<rparr> example_table
             [(''wind_ref'', 1), (''pv_ref'', 1)] 1001),
      [LogInfo ''Start splitting energy'',
       PostTeamsAlert
         ''New splitting coefficients for pid 307 deviate strongly from previously stored coefficients.''
         (convert_coefdict_to_coefsdf \<lparr>pj_id = 307\<rparr> example_table
            [(''wind_ref'', 2/3), (''pv_ref'', 2/3), (''MAE'', 1/3)] 1000)])"
    by (simp add: split_energy_def fit_candidate_example persist_or_alert_def)
       (simp add: example_env_def example_db_def v2 alert_message_307)
  from r1 r2 v2 v3 show ?thesis by simp
qed
subsection \<open>The Tracy job runner\<close>








end
